theory Spec2Isabelle
  imports Complex_Main "HOL-Library.Char_ord" "HOL-Library.List_Lexorder" "HOL-Library.Sublist"
begin

section \<open>Python values shared by the modules\<close>

text \<open>
  The package is Python 2 (it imports \<^verbatim>\<open>cPickle\<close>): a \<^verbatim>\<open>str\<close> is a byte string, modelled
  as \<^typ>\<open>string\<close>; comparison of two strings is bytewise lexicographic, which is the order
  \<^theory_text>\<open>List_Lexorder\<close> and \<^theory_text>\<open>Char_ord\<close> give to \<^typ>\<open>string\<close>. Every exception the
  modelled code can raise is a value of \<open>py_error\<close>, and a call that may raise returns
  \<open>py_error + 'a\<close>.
\<close>

datatype py_error =
    IndexError
  | AttributeError
  | TypeError
  | RegexError
  | ErrorReturnCode int string
  | OtherError string

subsection \<open>Strings\<close>

text \<open>\<^verbatim>\<open>s.startswith(p)\<close> and \<^verbatim>\<open>s.endswith(p)\<close>\<close>

definition startswith :: "string \<Rightarrow> string \<Rightarrow> bool" where
  "startswith s p = prefix p s"

definition endswith :: "string \<Rightarrow> string \<Rightarrow> bool" where
  "endswith s p = suffix p s"

text \<open>
  Python's \<^verbatim>\<open>sub in s\<close> on strings: \<open>sub\<close> occurs in \<open>s\<close> as a contiguous run, searched
  from the left.
\<close>

fun str_contains :: "string \<Rightarrow> string \<Rightarrow> bool" where
  "str_contains sub [] = (sub = [])"
| "str_contains sub (c # cs) = (prefix sub (c # cs) \<or> str_contains sub cs)"

text \<open>
  \<^verbatim>\<open>s.split(sep)\<close> for a one-character separator: the pieces between the separators,
  empty pieces included, so the result is never empty.
\<close>

fun str_split :: "char \<Rightarrow> string \<Rightarrow> string list" where
  "str_split sep [] = [[]]"
| "str_split sep (c # cs) =
     (if c = sep then [] # str_split sep cs
      else (case str_split sep cs of
              [] \<Rightarrow> [[c]]
            | w # ws \<Rightarrow> (c # w) # ws))"

text \<open>\<^verbatim>\<open>sep.join(xs)\<close>\<close>

fun str_join :: "string \<Rightarrow> string list \<Rightarrow> string" where
  "str_join sep [] = []"
| "str_join sep [x] = x"
| "str_join sep (x # y # zs) = x @ sep @ str_join sep (y # zs)"

section \<open>posixpath\<close>

text \<open>
  \<^verbatim>\<open>posixpath.join(a, b)\<close> of the standard library, for one appended component:
  an absolute \<open>b\<close> replaces the path built so far; otherwise \<open>b\<close> is appended, after
  a separator unless the path is empty or already ends with one.
\<close>

definition posixpath_join :: "string \<Rightarrow> string \<Rightarrow> string" where
  "posixpath_join a b =
     (if startswith b ''/'' then b
      else if a = '''' \<or> endswith a ''/'' then a @ b
      else a @ ''/'' @ b)"

text \<open>
  \<^verbatim>\<open>posixpath.commonprefix(m)\<close>: the character-wise common prefix of the smallest and the
  largest string of \<open>m\<close>. The loop indexes the largest string with the positions of the
  smallest one; \<^verbatim>\<open>s2[i]\<close> past the end of \<open>s2\<close> would raise \<^verbatim>\<open>IndexError\<close>, which the
  model keeps as a branch.
\<close>

fun commonprefix_loop :: "string \<Rightarrow> string \<Rightarrow> py_error + string" where
  "commonprefix_loop [] s2 = Inr []"
| "commonprefix_loop (c # s1) [] = Inl IndexError"
| "commonprefix_loop (c # s1) (d # s2) =
     (if c \<noteq> d then Inr []
      else (case commonprefix_loop s1 s2 of
              Inl e \<Rightarrow> Inl e
            | Inr p \<Rightarrow> Inr (c # p)))"

definition commonprefix :: "string list \<Rightarrow> py_error + string" where
  "commonprefix m =
     (if m = [] then Inr ''''
      else commonprefix_loop (fold min (tl m) (hd m)) (fold max (tl m) (hd m)))"

text \<open>
  \<^verbatim>\<open>posixpath.normpath(path)\<close>: empty and \<^verbatim>\<open>.\<close> components are dropped, a \<^verbatim>\<open>..\<close>
  removes the component before it where there is one to remove, and one or two leading
  slashes are kept (three or more count as one).
\<close>

fun normpath_loop :: "nat \<Rightarrow> string list \<Rightarrow> string list \<Rightarrow> string list" where
  "normpath_loop initial_slashes [] new_comps = new_comps"
| "normpath_loop initial_slashes (part # parts) new_comps =
     (if part = '''' \<or> part = ''.'' then normpath_loop initial_slashes parts new_comps
      else if part \<noteq> ''..'' \<or> (initial_slashes = 0 \<and> new_comps = [])
                \<or> (new_comps \<noteq> [] \<and> last new_comps = ''..'')
        then normpath_loop initial_slashes parts (new_comps @ [part])
      else if new_comps \<noteq> [] then normpath_loop initial_slashes parts (butlast new_comps)
      else normpath_loop initial_slashes parts new_comps)"

definition normpath :: "string \<Rightarrow> string" where
  "normpath path =
     (if path = '''' then ''.''
      else
        (let initial_slashes =
               (if startswith path ''/''
                then (if startswith path ''//'' \<and> \<not> startswith path ''///'' then 2 else 1)
                else (0::nat));
             comps = normpath_loop initial_slashes (str_split CHR ''/'' path) [];
             joined = str_join ''/'' comps;
             path' = (if initial_slashes \<noteq> 0
                      then List.replicate initial_slashes CHR ''/'' @ joined else joined)
         in if path' = '''' then ''.'' else path'))"

section \<open>storage.py\<close>

record StorageElement =
  name :: string
  host :: string
  type :: string
  location :: string
  basepath :: string

definition get_storage_path :: "StorageElement \<Rightarrow> string \<Rightarrow> string" where
  "get_storage_path self remotepath = posixpath_join (basepath self) remotepath"

definition get_distance :: "StorageElement \<Rightarrow> StorageElement \<Rightarrow> py_error + int" where
  "get_distance self other =
     (case commonprefix [location self, location other] of
        Inl e \<Rightarrow> Inl e
      | Inr common \<Rightarrow> Inr (- int (count_list common CHR ''/'')))"

definition SEs :: "StorageElement list" where
  "SEs =
     [ \<lparr> name = ''RAL-LCG22-tape'',
         host = ''srm-t2k.gridpp.rl.ac.uk'',
         type = ''tape'',
         location = ''/europe/uk/ral'',
         basepath = ''srm://srm-t2k.gridpp.rl.ac.uk/castor/ads.rl.ac.uk/prod/t2k.org'' \<rparr>,
       \<lparr> name = ''UKI-SOUTHGRID-RALPP-disk'',
         host = ''heplnx204.pp.rl.ac.uk'',
         type = ''disk'',
         location = ''/europe/uk/ral'',
         basepath = ''rm://heplnx204.pp.rl.ac.uk/pnfs/pp.rl.ac.uk/data/t2k/t2k.org'' \<rparr>,
       \<lparr> name = ''CA-TRIUMF-T2K1-disk'',
         host = ''t2ksrm.nd280.org'',
         type = ''disk'',
         location = ''/americas/ca/ubc'',
         basepath = ''srm://'' \<rparr>,
       \<lparr> name = ''JP-KEK-CRC-02-disk'',
         host = ''kek2-se01.cc.kek.jp'',
         type = ''disk'',
         location = ''/asia/jp/kek'',
         basepath = ''srm://'' \<rparr> ]"

text \<open>
  \<^verbatim>\<open>get_SE_by_path\<close> is a \<^verbatim>\<open>for\<close> loop over the module's list \<^verbatim>\<open>SEs\<close> that returns from
  inside the loop; \<open>get_SE_by_path_loop\<close> is that loop over the elements still to visit.
\<close>

fun get_SE_by_path_loop :: "StorageElement list \<Rightarrow> string \<Rightarrow> StorageElement option" where
  "get_SE_by_path_loop [] path = None"
| "get_SE_by_path_loop (SE # rest) path =
     (if str_contains (host SE) path then Some SE else get_SE_by_path_loop rest path)"

definition get_SE_by_path :: "string \<Rightarrow> StorageElement option" where
  "get_SE_by_path path = get_SE_by_path_loop SEs path"

subsection \<open>Vocabulary of the distance claims\<close>

text \<open>
  How much of a location two elements share, read in the two ways the words
  ``shares a longer path prefix'' allow: the number of leading characters the two location
  strings have in common, and the number of leading path segments (the pieces between
  \<^verbatim>\<open>/\<close>) they have in common. \<open>shared_slashes\<close> is the quantity the code negates.
\<close>

definition shared_prefix_chars :: "string \<Rightarrow> string \<Rightarrow> nat" where
  "shared_prefix_chars a b = length (longest_common_prefix a b)"

definition shared_prefix_segments :: "string \<Rightarrow> string \<Rightarrow> nat" where
  "shared_prefix_segments a b =
     length (longest_common_prefix (str_split CHR ''/'' a) (str_split CHR ''/'' b))"

definition shared_slashes :: "string \<Rightarrow> string \<Rightarrow> nat" where
  "shared_slashes a b = count_list (longest_common_prefix a b) CHR ''/''"

section \<open>cache.py\<close>

text \<open>
  What the cache takes from the Python runtime: \<^verbatim>\<open>cPickle.dumps\<close> (it raises on an
  argument list it cannot pickle), the built-in \<^verbatim>\<open>hash\<close> of a string, and the clock
  \<^verbatim>\<open>time()\<close>, read from the state \<open>'w\<close> of the world. A time and a TTL are Python
  floats (doubles), modelled by the real numbers they stand for; comparing two of them is
  exact, adding them is not: \<open>float_add\<close> is the addition of the machine, which rounds the
  exact sum to a double. It is a parameter, so every statement holds for the machine's
  addition whatever it rounds to.
\<close>

record ('a, 'w) py_runtime =
  dumps :: "'a \<Rightarrow> py_error + string"
  builtin_hash :: "string \<Rightarrow> int"
  time :: "'w \<Rightarrow> real"
  float_add :: "real \<Rightarrow> real \<Rightarrow> real"

text \<open>
  A \<^verbatim>\<open>CacheEntry\<close> object. The attribute \<^verbatim>\<open>creation_time\<close> exists only once the
  constructor has assigned it: \<open>None\<close> is the object without that attribute.
\<close>

record 'v CacheEntry =
  entry_value :: 'v
  creation_time :: "real option"
  entry_cache_time :: real

definition CacheEntry_init ::
  "('a, 'w) py_runtime \<Rightarrow> 'w \<Rightarrow> 'v \<Rightarrow> real option \<Rightarrow> real \<Rightarrow> 'v CacheEntry" where
  "CacheEntry_init rt w v creation_time_arg cache_time_arg =
     \<lparr> entry_value = v,
       creation_time = (if creation_time_arg = None then Some (time rt w) else None),
       entry_cache_time = cache_time_arg \<rparr>"

definition is_valid ::
  "('a, 'w) py_runtime \<Rightarrow> 'w \<Rightarrow> 'v CacheEntry \<Rightarrow> py_error + bool" where
  "is_valid rt w self =
     (case creation_time self of
        None \<Rightarrow> Inl AttributeError
      | Some t \<Rightarrow> Inr (float_add rt t (entry_cache_time self) > time rt w))"

record 'v Cache =
  cache_time :: real
  cache :: "int \<rightharpoonup> 'v CacheEntry"

definition Cache_init :: "real \<Rightarrow> 'v Cache" where
  "Cache_init cache_time_arg = \<lparr> cache_time = cache_time_arg, cache = Map.empty \<rparr>"

definition Cache_hash :: "('a, 'w) py_runtime \<Rightarrow> 'a \<Rightarrow> py_error + int" where
  "Cache_hash rt args =
     (case dumps rt args of
        Inl e \<Rightarrow> Inl e
      | Inr pickled \<Rightarrow> Inr (builtin_hash rt pickled))"

definition get_entry ::
  "('a, 'w) py_runtime \<Rightarrow> 'w \<Rightarrow> 'v Cache \<Rightarrow> 'a \<Rightarrow> py_error + 'v CacheEntry option" where
  "get_entry rt w self args =
     (case Cache_hash rt args of
        Inl e \<Rightarrow> Inl e
      | Inr key \<Rightarrow>
          (case cache self key of
             Some entry \<Rightarrow>
               (case is_valid rt w entry of
                  Inl e \<Rightarrow> Inl e
                | Inr valid \<Rightarrow> if valid then Inr (Some entry) else Inr None)
           | None \<Rightarrow> Inr None))"

definition add_entry ::
  "('a, 'w) py_runtime \<Rightarrow> 'w \<Rightarrow> 'v Cache \<Rightarrow> 'v \<Rightarrow> 'a \<Rightarrow> py_error + 'v Cache" where
  "add_entry rt w self v args =
     (case Cache_hash rt args of
        Inl e \<Rightarrow> Inl e
      | Inr key \<Rightarrow>
          Inr (self\<lparr> cache :=
                 (cache self)(key \<mapsto> CacheEntry_init rt w v None (cache_time self)) \<rparr>))"

text \<open>
  A run of a memoized operation: the cache object, the world the wrapped operation acts
  on (it holds the clock), and \<open>cr_calls\<close>, a counter of how often the wrapped operation
  has been invoked. The counter is not in the source; \<open>cached_function\<close> increments it
  exactly where the source calls \<^verbatim>\<open>function(*args, **kwargs)\<close>.
\<close>

record ('v, 'w) cache_run =
  cr_cache :: "'v Cache"
  cr_world :: 'w
  cr_calls :: nat

definition cached_function ::
  "('a, 'w) py_runtime \<Rightarrow> ('a \<Rightarrow> 'w \<Rightarrow> (py_error + 'v) \<times> 'w) \<Rightarrow> 'a \<Rightarrow>
   ('v, 'w) cache_run \<Rightarrow> (py_error + 'v) \<times> ('v, 'w) cache_run" where
  "cached_function rt function args s =
     (case get_entry rt (cr_world s) (cr_cache s) args of
        Inl e \<Rightarrow> (Inl e, s)
      | Inr (Some entry) \<Rightarrow> (Inr (entry_value entry), s)
      | Inr None \<Rightarrow>
          (case function args (cr_world s) of
             (Inl e, w') \<Rightarrow> (Inl e, s\<lparr> cr_world := w', cr_calls := Suc (cr_calls s) \<rparr>)
           | (Inr v, w') \<Rightarrow>
               (case add_entry rt w' (cr_cache s) v args of
                  Inl e \<Rightarrow> (Inl e, s\<lparr> cr_world := w', cr_calls := Suc (cr_calls s) \<rparr>)
                | Inr self' \<Rightarrow>
                    (Inr v, \<lparr> cr_cache = self', cr_world = w',
                              cr_calls = Suc (cr_calls s) \<rparr>))))"

section \<open>backends.py\<close>

subsection \<open>The two output shapes\<close>

text \<open>
  An operation returns a block of text or an iterable of lines. The iterables of the
  module are generators: lazy, finite and read once. An iterable is modelled by what
  reading it to its end gives: the lines it yields and, when reading it stops with an
  exception, that exception.
\<close>

datatype iterable = Iter (yielded: "string list") (raised: "py_error option")

datatype py_output = Text string | Iterable iterable

text \<open>
  The keyword arguments that steer the modelled code: \<^verbatim>\<open>_iter\<close> and \<^verbatim>\<open>_ok_code\<close>, each
  absent (\<open>None\<close>) or given. Other keyword arguments are handed on unread to the external
  commands and are part of what those commands do.
\<close>

record kwargs =
  kw_iter :: "bool option"
  kw_ok_code :: "int list option"

definition no_kwargs :: kwargs where
  "no_kwargs = \<lparr> kw_iter = None, kw_ok_code = None \<rparr>"

text \<open>\<^verbatim>\<open>kwargs.pop('_iter', False)\<close>\<close>

definition pop_iter :: "kwargs \<Rightarrow> bool" where
  "pop_iter kw = (case kw_iter kw of None \<Rightarrow> False | Some b \<Rightarrow> b)"

text \<open>
  \<^verbatim>\<open>_iterable_output_from_text\<close>. The split comes first and cannot fail; \<^verbatim>\<open>text[-1]\<close>
  raises \<^verbatim>\<open>IndexError\<close> on the empty string.
\<close>

definition iterable_output_from_text :: "string \<Rightarrow> kwargs \<Rightarrow> py_error + py_output" where
  "iterable_output_from_text text kw =
     (let it = pop_iter kw in
      if it = False then Inr (Text text)
      else
        (let lines = str_split CHR ''\<newline>'' text in
         if text = [] then Inl IndexError
         else
           (let lines' = (if last text = CHR ''\<newline>'' then butlast lines else lines)
            in Inr (Iterable (Iter (map (\<lambda>line. line @ ''\<newline>'') lines') None)))))"

text \<open>
  \<^verbatim>\<open>_iterable_output_from_iterable\<close>. Concatenating reads the iterable to its end, so an
  exception the iterable raises leaves the call.
\<close>

definition iterable_output_from_iterable :: "iterable \<Rightarrow> kwargs \<Rightarrow> py_error + py_output" where
  "iterable_output_from_iterable iterable kw =
     (let it = pop_iter kw in
      if it = True then Inr (Iterable iterable)
      else
        (case raised iterable of
           Some e \<Rightarrow> Inl e
         | None \<Rightarrow> Inr (Text (concat (yielded iterable)))))"

text \<open>
  The round trip of the output-shape claim: a block of text is turned into the line
  sequence (\<^verbatim>\<open>_iter=True\<close>) and the sequence back into a block of text (\<^verbatim>\<open>_iter=False\<close>).
\<close>

definition text_round_trip :: "string \<Rightarrow> py_error + py_output" where
  "text_round_trip text =
     (case iterable_output_from_text text \<lparr> kw_iter = Some True, kw_ok_code = None \<rparr> of
        Inl e \<Rightarrow> Inl e
      | Inr (Text t) \<Rightarrow> Inr (Text t)
      | Inr (Iterable lines) \<Rightarrow>
          iterable_output_from_iterable lines \<lparr> kw_iter = Some False, kw_ok_code = None \<rparr>)"

text \<open>\<^verbatim>\<open>str(x)\<close> and \<^verbatim>\<open>iter(x)\<close> of a returned output; iterating a string gives its characters.\<close>

definition py_str :: "py_output \<Rightarrow> string" where
  "py_str out = (case out of Text t \<Rightarrow> t | Iterable it \<Rightarrow> concat (yielded it))"

definition py_iter :: "py_output \<Rightarrow> iterable" where
  "py_iter out = (case out of Text t \<Rightarrow> Iter (map (\<lambda>c. [c]) t) None | Iterable it \<Rightarrow> it)"

text \<open>
  \<^verbatim>\<open>s.strip()\<close> on a byte string (the \<^verbatim>\<open>str(...)\<close> in \<^verbatim>\<open>_is_dir\<close>): leading and trailing
  ASCII white space is removed.
\<close>

definition py_isspace :: "char \<Rightarrow> bool" where
  "py_isspace c = (c \<in> set [CHR '' '', CHR 0x09, CHR 0x0A, CHR 0x0B, CHR 0x0C, CHR 0x0D])"

definition str_strip :: "string \<Rightarrow> string" where
  "str_strip s = rev (dropWhile py_isspace (rev (dropWhile py_isspace s)))"

text \<open>
  \<^verbatim>\<open>s.strip()\<close> on a unicode string: the lines that \<^verbatim>\<open>sh\<close> yields with \<^verbatim>\<open>_iter=True\<close> are
  decoded, so the \<^verbatim>\<open>element.strip()\<close> of \<^verbatim>\<open>replicate\<close> removes Unicode white space. A
  character of the model is a code point below 256; the white space among those is
  U+0009 to U+000D, U+001C to U+001F, U+0020, U+0085 and U+00A0.
\<close>

definition unicode_isspace :: "char \<Rightarrow> bool" where
  "unicode_isspace c =
     (c \<in> set [CHR 0x09, CHR 0x0A, CHR 0x0B, CHR 0x0C, CHR 0x0D,
                CHR 0x1C, CHR 0x1D, CHR 0x1E, CHR 0x1F, CHR '' '', CHR 0x85, CHR 0xA0])"

definition unicode_strip :: "string \<Rightarrow> string" where
  "unicode_strip s = rev (dropWhile unicode_isspace (rev (dropWhile unicode_isspace s)))"

subsection \<open>External commands\<close>

text \<open>
  The transfer tools are programs run through the library \<^verbatim>\<open>sh\<close>. A program is a
  parameter of the model: from its arguments and the world it gives the lines it prints
  (standard error included, where the caller merges it), its exit status, and the world
  it leaves. \<open>sh_call\<close> is the contract of calling an \<^verbatim>\<open>sh.Command\<close>: an exit status
  outside \<^verbatim>\<open>_ok_code\<close> (by default only 0) is an \<^verbatim>\<open>ErrorReturnCode\<close>, raised by the call
  itself, or, with \<^verbatim>\<open>_iter=True\<close>, by the returned iterable once its lines are read.
\<close>

type_synonym 'w command = "string list \<Rightarrow> 'w \<Rightarrow> (string list \<times> int) \<times> 'w"

definition sh_error :: "kwargs \<Rightarrow> int \<Rightarrow> string list \<Rightarrow> py_error option" where
  "sh_error kw code lines =
     (let ok_code = (case kw_ok_code kw of None \<Rightarrow> [0] | Some codes \<Rightarrow> codes)
      in if code \<in> set ok_code then None else Some (ErrorReturnCode code (concat lines)))"

definition sh_call ::
  "'w command \<Rightarrow> string list \<Rightarrow> kwargs \<Rightarrow> 'w \<Rightarrow> (py_error + py_output) \<times> 'w" where
  "sh_call cmd args kw w =
     (case cmd args w of
        ((lines, code), w') \<Rightarrow>
          if pop_iter kw then (Inr (Iterable (Iter lines (sh_error kw code lines))), w')
          else
            (case sh_error kw code lines of
               Some e \<Rightarrow> (Inl e, w')
             | None \<Rightarrow> (Inr (Text (concat lines)), w')))"

subsection \<open>State and the storage functions\<close>

text \<open>
  The state of a run: the world the commands act on, and \<open>replicate_calls\<close>, the record of
  every invocation of the raw replicate primitive \<^verbatim>\<open>_replicate\<close> (its two locators, and
  the exit status and the lines of the command it ran). The record is not in the source;
  \<open>priv_replicate\<close> appends to it, so it is the call counter on that primitive.
\<close>

record transfer =
  t_source :: string
  t_destination :: string
  t_exit_code :: int
  t_output :: "string list"

record 'w grid_state =
  world :: 'w
  replicate_calls :: "transfer list"

type_synonym ('w, 'a) action = "'w grid_state \<Rightarrow> (py_error + 'a) \<times> 'w grid_state"

definition on_world :: "('w \<Rightarrow> (py_error + 'a) \<times> 'w) \<Rightarrow> ('w, 'a) action" where
  "on_world f s = (case f (world s) of (r, w') \<Rightarrow> (r, s\<lparr> world := w' \<rparr>))"

definition raise :: "py_error \<Rightarrow> ('w, 'a) action" where
  "raise e s = (Inl e, s)"

definition and_then :: "('w, 'a) action \<Rightarrow> ('a \<Rightarrow> ('w, 'b) action) \<Rightarrow> ('w, 'b) action" where
  "and_then m f s = (case m s of (Inl e, s') \<Rightarrow> (Inl e, s') | (Inr x, s') \<Rightarrow> f x s')"

text \<open>
  \<^verbatim>\<open>replicate\<close> calls \<^verbatim>\<open>storage.get_SE\<close>, \<^verbatim>\<open>has_replica\<close>, \<^verbatim>\<open>get_closest_SE\<close> and
  \<^verbatim>\<open>get_replica\<close>, which the module \<^verbatim>\<open>storage.py\<close> at hand does not define, and the
  regular expressions of the module \<^verbatim>\<open>re\<close>. They are parameters: each storage function
  may raise and may change the world (it queries the grid); \<open>re_valid\<close> says whether
  \<^verbatim>\<open>re.compile\<close> accepts a pattern and \<open>re_search\<close> whether the pattern is found.
\<close>

record 'w environment =
  get_SE :: "string \<Rightarrow> 'w \<Rightarrow> (py_error + StorageElement option) \<times> 'w"
  has_replica :: "StorageElement \<Rightarrow> string \<Rightarrow> 'w \<Rightarrow> (py_error + bool) \<times> 'w"
  get_closest_SE ::
    "StorageElement \<Rightarrow> string \<Rightarrow> bool \<Rightarrow> 'w \<Rightarrow> (py_error + StorageElement option) \<times> 'w"
  get_replica :: "StorageElement \<Rightarrow> string \<Rightarrow> 'w \<Rightarrow> (py_error + string) \<times> 'w"
  re_valid :: "string \<Rightarrow> bool"
  re_search :: "string \<Rightarrow> string \<Rightarrow> bool"

subsection \<open>LCGBackend\<close>

text \<open>
  The one backend \<^verbatim>\<open>get_backend\<close> can return. Its commands \<^verbatim>\<open>lfc-ls\<close> and \<^verbatim>\<open>lcg-rep\<close>
  are the parameters \<open>ls_cmd\<close> and \<open>replicate_cmd\<close>. Methods whose Python name starts with
  an underscore carry the prefix \<open>priv_\<close>.
\<close>

record 'w LCGBackend =
  basedir :: string
  ls_cmd :: "'w command"
  replicate_cmd :: "'w command"

definition LCGBackend_init ::
  "'w command \<Rightarrow> 'w command \<Rightarrow> string option \<Rightarrow> 'w LCGBackend" where
  "LCGBackend_init lfc_ls lcg_rep basedir_kw =
     \<lparr> basedir = ''/grid'' @ (case basedir_kw of None \<Rightarrow> ''/t2k.org'' | Some b \<Rightarrow> b),
       ls_cmd = lfc_ls,
       replicate_cmd = lcg_rep \<rparr>"

definition full_path :: "'w LCGBackend \<Rightarrow> string \<Rightarrow> string" where
  "full_path self relpath = normpath (basedir self @ relpath)"

definition priv_ls ::
  "'w LCGBackend \<Rightarrow> string \<Rightarrow> bool \<Rightarrow> bool \<Rightarrow> kwargs \<Rightarrow> ('w, py_output) action" where
  "priv_ls self remotepath long directory kw s =
     (let args = (if long then [''-l''] else []) @ (if directory then [''-d''] else [])
                 @ [remotepath]
      in case sh_call (ls_cmd self) args kw (world s) of
           (r, w') \<Rightarrow> (r, s\<lparr> world := w' \<rparr>))"

definition ls ::
  "'w LCGBackend \<Rightarrow> string \<Rightarrow> bool \<Rightarrow> bool \<Rightarrow> kwargs \<Rightarrow> ('w, py_output) action" where
  "ls self remotepath long directory kw s =
     priv_ls self (full_path self remotepath) long directory kw s"

definition priv_is_dir :: "'w LCGBackend \<Rightarrow> string \<Rightarrow> ('w, bool) action" where
  "priv_is_dir self remotepath s =
     (case priv_ls self remotepath True True no_kwargs s of
        (Inl e, s') \<Rightarrow> (Inl e, s')
      | (Inr listing, s') \<Rightarrow>
          (case str_strip (py_str listing) of
             [] \<Rightarrow> (Inl IndexError, s')
           | c # _ \<Rightarrow> (Inr (c = CHR ''d''), s')))"

text \<open>\<^verbatim>\<open>_ignore_identical_lines\<close>: a line equal to the line before it is skipped.\<close>

fun ignore_identical_loop :: "string option \<Rightarrow> string list \<Rightarrow> string list" where
  "ignore_identical_loop last_line [] = []"
| "ignore_identical_loop last_line (line # rest) =
     (if Some line = last_line then ignore_identical_loop last_line rest
      else line # ignore_identical_loop (Some line) rest)"

definition ignore_identical_lines :: "iterable \<Rightarrow> iterable" where
  "ignore_identical_lines iterable =
     Iter (ignore_identical_loop None (yielded iterable)) (raised iterable)"

text \<open>
  \<^verbatim>\<open>_replicate\<close>, the raw replicate primitive: it runs \<^verbatim>\<open>lcg-rep\<close> with \<^verbatim>\<open>_iter=True\<close> and
  the caller's \<^verbatim>\<open>_ok_code\<close>, drops repeated lines and shapes the output as the caller's
  \<^verbatim>\<open>_iter\<close> asks.
\<close>

definition priv_replicate ::
  "'w LCGBackend \<Rightarrow> string \<Rightarrow> string \<Rightarrow> kwargs \<Rightarrow> ('w, py_output) action" where
  "priv_replicate self source_storagepath destination_storagepath kw s =
     (let it = pop_iter kw;
          kw' = kw\<lparr> kw_iter := Some True \<rparr>;
          args = [''-v'', ''--checksum'', ''-d'', destination_storagepath, source_storagepath];
          ran = fst (replicate_cmd self args (world s))
      in case sh_call (replicate_cmd self) args kw' (world s) of
           (r, w') \<Rightarrow>
             (let s' = \<lparr> world = w',
                         replicate_calls = replicate_calls s @
                           [\<lparr> t_source = source_storagepath,
                              t_destination = destination_storagepath,
                              t_exit_code = snd ran, t_output = fst ran \<rparr>] \<rparr>
              in case r of
                   Inl e \<Rightarrow> (Inl e, s')
                 | Inr iterable \<Rightarrow>
                     (iterable_output_from_iterable (ignore_identical_lines (py_iter iterable))
                        \<lparr> kw_iter = Some it, kw_ok_code = None \<rparr>, s')))"

subsection \<open>replicate\<close>

text \<open>
  The argument \<^verbatim>\<open>recursive\<close> is a truth value or a string (a regular expression).
  \<^verbatim>\<open>list(range(-255,256))\<close> is \<open>all_exit_codes\<close>.
\<close>

datatype recursive_arg = RecBool bool | RecStr string

definition all_exit_codes :: "int list" where
  "all_exit_codes = [- 255 .. 255]"

definition already_present :: "string \<Rightarrow> StorageElement \<Rightarrow> string" where
  "already_present remotepath dst =
     remotepath @ ''\<newline>Replica already present at destination storage element ''
       @ name dst @ ''.\<newline>''"

text \<open>The choice of the source element (the statements under \<^verbatim>\<open># Get source SE\<close>).\<close>

definition find_source ::
  "'w environment \<Rightarrow> StorageElement \<Rightarrow> string \<Rightarrow> string option \<Rightarrow> bool \<Rightarrow>
   ('w, StorageElement) action" where
  "find_source env dst remotepath source tape =
     (case source of
        None \<Rightarrow>
          and_then (on_world (get_closest_SE env dst remotepath tape))
            (\<lambda>src. case src of
               None \<Rightarrow> raise (ErrorReturnCode 1
                 (''Could not find valid storage element with replica of '' @ remotepath
                    @ ''.\<newline>''))
             | Some src \<Rightarrow> (\<lambda>s. (Inr src, s)))
      | Some source_name \<Rightarrow>
          and_then (on_world (get_SE env source_name))
            (\<lambda>src. case src of
               None \<Rightarrow> raise (ErrorReturnCode 1
                 (''Could not find storage element '' @ source_name @ ''.\<newline>''))
             | Some src \<Rightarrow>
                 and_then (on_world (has_replica env src remotepath))
                   (\<lambda>present.
                      if \<not> present
                      then raise (ErrorReturnCode 1
                        (remotepath @ ''\<newline>No replica present at source storage element ''
                           @ name src @ ''\<newline>''))
                      else (\<lambda>s. (Inr src, s)))))"

text \<open>
  The part of \<^verbatim>\<open>replicate\<close> after the recursive branch: the destination is looked up
  (a destination that is \<^verbatim>\<open>None\<close> has no method \<^verbatim>\<open>has_replica\<close>), a replica already there
  ends the call with a message, otherwise a source is chosen and the raw primitive runs.
\<close>

definition replicate_leaf ::
  "'w LCGBackend \<Rightarrow> 'w environment \<Rightarrow> string \<Rightarrow> string \<Rightarrow> string option \<Rightarrow> bool \<Rightarrow>
   kwargs \<Rightarrow> ('w, py_output) action" where
  "replicate_leaf self env remotepath destination source tape kw =
     and_then (on_world (get_SE env destination))
       (\<lambda>dst. case dst of
          None \<Rightarrow> raise AttributeError
        | Some dst \<Rightarrow>
            and_then (on_world (has_replica env dst remotepath))
              (\<lambda>present.
                 if present
                 then (\<lambda>s. (iterable_output_from_text (already_present remotepath dst) kw, s))
                 else
                   and_then (find_source env dst remotepath source tape)
                     (\<lambda>src.
                        and_then (on_world (get_replica env src remotepath))
                          (\<lambda>source_path.
                             priv_replicate self source_path
                               (get_storage_path dst remotepath) kw))))"

text \<open>
  \<^verbatim>\<open>itertools.chain.from_iterable(outputs(paths))\<close>, read to its end: each path's call is
  made when the chain reaches it, its lines are read, and an exception of the call or of
  its iterable ends the chain there.
\<close>

fun chain_from_iterable ::
  "(string \<Rightarrow> ('w, py_output) action) \<Rightarrow> string list \<Rightarrow> 'w grid_state \<Rightarrow>
   iterable \<times> 'w grid_state" where
  "chain_from_iterable outputs [] s = (Iter [] None, s)"
| "chain_from_iterable outputs (path # paths) s =
     (case outputs path s of
        (Inl e, s') \<Rightarrow> (Iter [] (Some e), s')
      | (Inr out, s') \<Rightarrow>
          (case raised (py_iter out) of
             Some e \<Rightarrow> (Iter (yielded (py_iter out)) (Some e), s')
           | None \<Rightarrow>
               (case chain_from_iterable outputs paths s' of
                  (rest, s'') \<Rightarrow>
                    (Iter (yielded (py_iter out) @ yielded rest) (raised rest), s''))))"

text \<open>
  \<^verbatim>\<open>replicate\<close> (named \<open>replicate_grid\<close>: \<open>replicate\<close> is a list function of HOL). A string
  \<^verbatim>\<open>recursive\<close> is compiled and replaced by \<^verbatim>\<open>True\<close>. In the recursive branch the children
  are called with \<^verbatim>\<open>_iter=True, _ok_code=list(range(-255,256)), **kwargs\<close>; Python refuses
  that call with \<^verbatim>\<open>TypeError\<close> when \<^verbatim>\<open>kwargs\<close> holds \<^verbatim>\<open>_ok_code\<close> already, which is the
  case in every child. So a call nests at most once, which is the termination argument.
\<close>

function replicate_grid ::
  "'w LCGBackend \<Rightarrow> 'w environment \<Rightarrow> string \<Rightarrow> string \<Rightarrow> string option \<Rightarrow> bool \<Rightarrow>
   recursive_arg \<Rightarrow> kwargs \<Rightarrow> ('w, py_output) action" where
  "replicate_grid self env remotepath destination source tape recursive kw s =
     (case (case recursive of
              RecStr pattern \<Rightarrow>
                if re_valid env pattern then Inr (Some pattern, True) else Inl RegexError
            | RecBool b \<Rightarrow> Inr (None, b)) of
        Inl e \<Rightarrow> (Inl e, s)
      | Inr (regex, recursive') \<Rightarrow>
          (case (if recursive' then priv_is_dir self (full_path self remotepath) s
                 else (Inr False, s)) of
             (Inl e, s1) \<Rightarrow> (Inl e, s1)
           | (Inr False, s1) \<Rightarrow>
               replicate_leaf self env remotepath destination source tape kw s1
           | (Inr True, s1) \<Rightarrow>
               (let it = pop_iter kw;
                    kw1 = kw\<lparr> kw_iter := None \<rparr>
                in case ls self remotepath False False
                          \<lparr> kw_iter = Some True, kw_ok_code = None \<rparr> s1 of
                     (Inl e, s2) \<Rightarrow> (Inl e, s2)
                   | (Inr listing, s2) \<Rightarrow>
                       (case raised (py_iter listing) of
                          Some e \<Rightarrow> (Inl e, s2)
                        | None \<Rightarrow>
                            (let newpaths =
                                   map (posixpath_join remotepath)
                                     (filter
                                        (\<lambda>element. case regex of
                                           None \<Rightarrow> True
                                         | Some pattern \<Rightarrow> re_search env pattern element)
                                        (map unicode_strip (yielded (py_iter listing))))
                             in case chain_from_iterable
                                       (\<lambda>path s'.
                                          if kw_ok_code kw1 = None
                                          then replicate_grid self env path destination source
                                                 tape (RecBool True)
                                                 (kw1\<lparr> kw_iter := Some True,
                                                       kw_ok_code := Some all_exit_codes \<rparr>) s'
                                          else (Inl TypeError, s'))
                                       newpaths s2 of
                                  (iterable, s3) \<Rightarrow>
                                    (iterable_output_from_iterable iterable
                                       \<lparr> kw_iter = Some it, kw_ok_code = None \<rparr>, s3))))))"
  by pat_completeness auto
termination
  by (relation "measure (\<lambda>(self, env, remotepath, destination, source, tape, recursive, kw, s).
        if kw_ok_code kw = None then 1 else 0)") auto

declare replicate_grid.simps [simp del]

section \<open>Example runs\<close>

text \<open>
  A small grid for the concrete statements. The directory \<^verbatim>\<open>/d\<close> holds \<^verbatim>\<open>a.txt\<close> and
  \<^verbatim>\<open>b.log\<close>; \<^verbatim>\<open>lcg-rep\<close> fails with status 1 on \<^verbatim>\<open>a.txt\<close> and succeeds, repeating a
  progress line, on everything else. Only the tape element at RAL holds replicas, and it
  is the closest source of every file. In \<open>demo_env_no_source\<close> no source is found for
  \<^verbatim>\<open>/d/a.txt\<close>. The world has no state of its own.
\<close>

definition demo_ls :: "unit command" where
  "demo_ls args w =
     (if args = [''-l'', ''-d'', ''/grid/t2k.org/d'']
      then (([''drwxrwxr-x   2 t2k  0 /grid/t2k.org/d\<newline>''], 0), w)
      else if args = [''/grid/t2k.org/d'']
      then (([''a.txt\<newline>'', ''b.log\<newline>''], 0), w)
      else (([''-rw-rw-r--   1 t2k  21 file\<newline>''], 0), w))"

definition demo_rep :: "unit command" where
  "demo_rep args w =
     (if last args = ''srm://ral/d/a.txt'' then (([''transfer failed\<newline>''], 1), w)
      else (([''copying\<newline>'', ''copying\<newline>'', ''done\<newline>''], 0), w))"

definition demo_backend :: "unit LCGBackend" where
  "demo_backend = LCGBackend_init demo_ls demo_rep None"

definition demo_env :: "unit environment" where
  "demo_env =
     \<lparr> get_SE = (\<lambda>n w. (Inr (find (\<lambda>se. name se = n) SEs), w)),
       has_replica = (\<lambda>se p w. (Inr (name se = ''RAL-LCG22-tape''), w)),
       get_closest_SE = (\<lambda>se p tape w. (Inr (Some (SEs ! 0)), w)),
       get_replica = (\<lambda>se p w. (Inr (''srm://ral'' @ p), w)),
       re_valid = (\<lambda>p. True),
       re_search = (\<lambda>p e. suffix p e) \<rparr>"

definition demo_env_no_source :: "unit environment" where
  "demo_env_no_source =
     demo_env \<lparr> get_closest_SE :=
       (\<lambda>se p tape w. (Inr (if p = ''/d/a.txt'' then None else Some (SEs ! 0)), w)) \<rparr>"

text \<open>
  A second listing, for a directory inside a directory: \<^verbatim>\<open>/top\<close> holds the directory
  \<^verbatim>\<open>d\<close>, which holds \<^verbatim>\<open>a.txt\<close>.
\<close>

definition demo_ls_nested :: "unit command" where
  "demo_ls_nested args w =
     (if args = [''-l'', ''-d'', ''/grid/t2k.org/top'']
      then (([''drwxrwxr-x   1 t2k  0 /grid/t2k.org/top\<newline>''], 0), w)
      else if args = [''-l'', ''-d'', ''/grid/t2k.org/top/d'']
      then (([''drwxrwxr-x   1 t2k  0 /grid/t2k.org/top/d\<newline>''], 0), w)
      else if args = [''/grid/t2k.org/top''] then (([''d\<newline>''], 0), w)
      else if args = [''/grid/t2k.org/top/d''] then (([''a.txt\<newline>''], 0), w)
      else (([''-rw-rw-r--   1 t2k  21 file\<newline>''], 0), w))"

definition demo_backend_nested :: "unit LCGBackend" where
  "demo_backend_nested = LCGBackend_init demo_ls_nested demo_rep None"

definition demo_state :: "unit grid_state" where
  "demo_state = \<lparr> world = (), replicate_calls = [] \<rparr>"

text \<open>
  A memoized operation for the concrete statements: the argument list is a string, pickled
  as itself and hashed by its length; the world is the clock; the operation takes one
  second and returns the length of its argument, and \<open>demo_failing_op\<close> takes one second
  and fails. The times and the TTL of the example are small whole numbers, whose sums are
  doubles, so the machine's addition is the exact one there.
\<close>

definition demo_rt :: "(string, real) py_runtime" where
  "demo_rt = \<lparr> dumps = (\<lambda>a. Inr a), builtin_hash = (\<lambda>s. int (length s)), time = (\<lambda>w. w),
               float_add = (\<lambda>a b. a + b) \<rparr>"


definition demo_failing_op :: "string \<Rightarrow> real \<Rightarrow> (py_error + nat) \<times> real" where
  "demo_failing_op a w = (Inl (ErrorReturnCode 1 ''lcg-lr failed''), w + 1)"

definition demo_run :: "(nat, real) cache_run" where
  "demo_run = \<lparr> cr_cache = Cache_init 60, cr_world = 0, cr_calls = 0 \<rparr>"

section \<open>Properties of storage.py\<close>

subsection \<open>The common prefix\<close>

lemma lcp_commute: "longest_common_prefix xs ys = longest_common_prefix ys xs"
  by (induction xs ys rule: longest_common_prefix.induct) auto

lemma lcp_self: "longest_common_prefix xs xs = xs"
  by (induction xs) auto

text \<open>
  The loop of \<open>commonprefix\<close> cannot read past the end of the larger string: it is
  entered with the smaller string first.
\<close>

lemma commonprefix_loop_le:
  "s1 \<le> s2 \<Longrightarrow> commonprefix_loop s1 s2 = Inr (longest_common_prefix s1 s2)"
  by (induction s1 s2 rule: commonprefix_loop.induct) auto

lemma commonprefix_pair: "commonprefix [a, b] = Inr (longest_common_prefix a b)"
proof (cases "a \<le> b")
  case True
  then show ?thesis
    by (simp add: commonprefix_def commonprefix_loop_le min_def max_def)
next
  case False
  then have "b \<le> a" by simp
  with False show ?thesis
    by (simp add: commonprefix_def commonprefix_loop_le min_def max_def lcp_commute)
qed

lemma get_distance_eq:
  "get_distance a b = Inr (- int (shared_slashes (location a) (location b)))"
  by (simp add: get_distance_def commonprefix_pair shared_slashes_def)

subsection \<open>Storage paths\<close>

lemma get_storage_path_absolute:
  "startswith remotepath ''/'' \<Longrightarrow> get_storage_path se remotepath = remotepath"
  by (simp add: get_storage_path_def posixpath_join_def)

lemma get_storage_path_relative:
  "\<not> startswith remotepath ''/'' \<Longrightarrow>
   get_storage_path se remotepath =
     (if basepath se = '''' \<or> endswith (basepath se) ''/'' then basepath se @ remotepath
      else basepath se @ ''/'' @ remotepath)"
  by (simp add: get_storage_path_def posixpath_join_def)

text \<open>
  Claim C2 (the locator of a storage element and a logical path is the plain concatenation
  \<open>basepath + path\<close>). The code calls \<^verbatim>\<open>posixpath.join\<close>, which drops the base path
  when the logical path is absolute. For the first registered element and the logical path
  \<^verbatim>\<open>/nd280/test\<close> of the package's own test, the locator is the logical path alone and
  differs from the concatenation.
\<close>

theorem get_storage_path_drops_basepath:
  "get_storage_path (SEs ! 0) ''/nd280/test'' = ''/nd280/test'' \<and>
   get_storage_path (SEs ! 0) ''/nd280/test'' \<noteq> basepath (SEs ! 0) @ ''/nd280/test''"
  by (simp add: SEs_def get_storage_path_def posixpath_join_def startswith_def)

subsection \<open>Distance\<close>

lemma str_split_not_Nil: "str_split sep s \<noteq> []"
  by (induction s) (auto split: list.splits)

lemma str_split_Cons_other:
  "c \<noteq> sep \<Longrightarrow>
   str_split sep (c # cs) = (c # hd (str_split sep cs)) # tl (str_split sep cs)"
  using str_split_not_Nil [of sep cs] by (cases "str_split sep cs") auto

lemma str_split_Cons_sep: "str_split sep (sep # cs) = [] # str_split sep cs"
  by simp

text \<open>
  The number of shared \<^verbatim>\<open>/\<close> is the number of shared segments, or one less (when the
  common prefix ends inside a segment or at the end of a location).
\<close>

lemma segments_bounds_Nil_left:
  "shared_slashes [] b \<le> shared_prefix_segments [] b \<and>
   shared_prefix_segments [] b \<le> Suc (shared_slashes [] b)"
proof -
  obtain h t where "str_split CHR ''/'' b = h # t"
    using str_split_not_Nil by (cases "str_split CHR ''/'' b") auto
  then show ?thesis
    by (auto simp: shared_slashes_def shared_prefix_segments_def)
qed

lemma segments_bounds_Nil_right:
  "shared_slashes a [] \<le> shared_prefix_segments a [] \<and>
   shared_prefix_segments a [] \<le> Suc (shared_slashes a [])"
proof -
  obtain h t where "str_split CHR ''/'' a = h # t"
    using str_split_not_Nil by (cases "str_split CHR ''/'' a") auto
  then show ?thesis
    by (cases a) (auto simp: shared_slashes_def shared_prefix_segments_def)
qed

lemma segments_bounds:
  "shared_slashes a b \<le> shared_prefix_segments a b \<and>
   shared_prefix_segments a b \<le> Suc (shared_slashes a b)"
proof (induction a b rule: longest_common_prefix.induct)
  case (1 x xs y ys)
  show ?case
  proof (cases "x = y")
    case False
    then show ?thesis
      by (cases "x = CHR ''/''"; cases "y = CHR ''/''")
         (auto simp: shared_slashes_def shared_prefix_segments_def
               str_split_Cons_other str_split_Cons_sep
               simp del: str_split.simps(2))
  next
    case True
    show ?thesis
    proof (cases "x = CHR ''/''")
      case True
      with \<open>x = y\<close> 1 show ?thesis
        by (auto simp: shared_slashes_def shared_prefix_segments_def)
    next
      case False
      obtain h t where xs: "str_split CHR ''/'' xs = h # t"
        using str_split_not_Nil by (cases "str_split CHR ''/'' xs") auto
      obtain h' t' where ys: "str_split CHR ''/'' ys = h' # t'"
        using str_split_not_Nil by (cases "str_split CHR ''/'' ys") auto
      from False \<open>x = y\<close> 1 xs ys show ?thesis
        by (auto simp: shared_slashes_def shared_prefix_segments_def)
    qed
  qed
qed (rule segments_bounds_Nil_left segments_bounds_Nil_right)+

lemma prefix_count_le: "prefix p q \<Longrightarrow> count_list p c \<le> count_list q c"
  by (auto simp: prefix_def)

lemma chars_mono:
  assumes "shared_prefix_chars y r \<le> shared_prefix_chars x r"
  shows "shared_slashes y r \<le> shared_slashes x r"
proof -
  have py: "prefix (longest_common_prefix y r) r"
    and px: "prefix (longest_common_prefix x r) r"
    by (rule longest_common_prefix_prefix2)+
  from py px assms
  have "prefix (longest_common_prefix y r) (longest_common_prefix x r)"
    unfolding shared_prefix_chars_def by (rule prefix_length_prefix)
  then show ?thesis
    unfolding shared_slashes_def by (rule prefix_count_le)
qed

lemma segments_mono:
  assumes "shared_prefix_segments y r < shared_prefix_segments x r"
  shows "shared_slashes y r \<le> shared_slashes x r"
  using assms segments_bounds [of y r] segments_bounds [of x r] by linarith

text \<open>
  Claim C5, as stated (a strictly longer shared path prefix gives a strictly smaller
  distance), fails. Take the two registered elements at \<^verbatim>\<open>/europe/uk/ral\<close> as \<open>x\<close> and
  \<open>ref\<close>, and an element at \<^verbatim>\<open>/europe/uk/oxford\<close> as \<open>y\<close>. Then \<open>x\<close> shares four
  segments (fourteen characters) with \<open>ref\<close> and \<open>y\<close> only three (eleven characters), but
  both distances are \<open>-3\<close>: the last shared segment brings no further \<^verbatim>\<open>/\<close>.
\<close>

theorem get_distance_not_strictly_monotone:
  "shared_prefix_segments ''/europe/uk/oxford'' (location (SEs ! 0))
     < shared_prefix_segments (location (SEs ! 1)) (location (SEs ! 0)) \<and>
   shared_prefix_chars ''/europe/uk/oxford'' (location (SEs ! 0))
     < shared_prefix_chars (location (SEs ! 1)) (location (SEs ! 0)) \<and>
   get_distance (SEs ! 1) (SEs ! 0) = Inr (- 3) \<and>
   get_distance \<lparr> name = ''OXFORD-disk'', host = ''se.example.ox.ac.uk'', type = ''disk'',
                  location = ''/europe/uk/oxford'', basepath = ''srm://'' \<rparr> (SEs ! 0)
     = Inr (- 3)"
  by (simp add: SEs_def get_distance_eq shared_slashes_def shared_prefix_segments_def
      shared_prefix_chars_def)

text \<open>
  Claim C5, amended: distance is weakly monotone in the shared location prefix. If the
  location of \<open>x\<close> shares a strictly longer path prefix with the location of \<open>ref\<close> than
  the location of \<open>y\<close> does, counted in whole segments or in characters, then both
  distances are defined and \<open>distance(x, ref) \<le> distance(y, ref)\<close>. The inequality is
  strict exactly when the common string prefix of \<open>x\<close> and \<open>ref\<close> holds more \<^verbatim>\<open>/\<close> than
  that of \<open>y\<close> and \<open>ref\<close>.
\<close>

theorem get_distance_weakly_monotone:
  assumes "shared_prefix_segments (location y) (location ref)
             < shared_prefix_segments (location x) (location ref)
           \<or> shared_prefix_chars (location y) (location ref)
             < shared_prefix_chars (location x) (location ref)"
  shows "\<exists>dx dy. get_distance x ref = Inr dx \<and> get_distance y ref = Inr dy \<and> dx \<le> dy \<and>
           (dx < dy \<longleftrightarrow>
              shared_slashes (location y) (location ref)
                < shared_slashes (location x) (location ref))"
proof -
  from assms
  have "shared_slashes (location y) (location ref) \<le> shared_slashes (location x) (location ref)"
    by (auto intro: segments_mono chars_mono)
  then show ?thesis
    by (simp add: get_distance_eq)
qed

text \<open>
  Witness for C5: the element at \<^verbatim>\<open>/europe/uk/ral\<close> and the one at \<^verbatim>\<open>/asia/jp/kek\<close>,
  seen from the tape element at \<^verbatim>\<open>/europe/uk/ral\<close>: distances \<open>-3\<close> and \<open>-1\<close>.
\<close>

theorem get_distance_weakly_monotone_witness:
  "shared_prefix_segments (location (SEs ! 3)) (location (SEs ! 0))
     < shared_prefix_segments (location (SEs ! 1)) (location (SEs ! 0)) \<and>
   (\<exists>dx dy. get_distance (SEs ! 1) (SEs ! 0) = Inr dx \<and>
            get_distance (SEs ! 3) (SEs ! 0) = Inr dy \<and> dx \<le> dy \<and> dx = - 3 \<and> dy = - 1)"
proof -
  have h: "shared_prefix_segments (location (SEs ! 3)) (location (SEs ! 0))
             < shared_prefix_segments (location (SEs ! 1)) (location (SEs ! 0))"
    by (simp add: SEs_def shared_prefix_segments_def)
  have d: "get_distance (SEs ! 1) (SEs ! 0) = Inr (- 3)" "get_distance (SEs ! 3) (SEs ! 0) = Inr (- 1)"
    by (simp_all add: SEs_def get_distance_eq shared_slashes_def)
  from h d get_distance_weakly_monotone [of "SEs ! 3" "SEs ! 0" "SEs ! 1"]
  show ?thesis by auto
qed

text \<open>
  Claim C6: distance is symmetric; the distance of an element to itself is the negated
  number of \<^verbatim>\<open>/\<close> in its own location; and for the registered elements at
  \<^verbatim>\<open>/europe/uk/ral\<close>, \<^verbatim>\<open>/europe/uk/ral\<close> and \<^verbatim>\<open>/asia/jp/kek\<close> the distances are \<open>-3\<close>
  between the first two and \<open>-1\<close> between the first and the third.
\<close>

theorem get_distance_symmetric:
  "get_distance a b = get_distance b a \<and>
   get_distance a a = Inr (- int (count_list (location a) CHR ''/'')) \<and>
   location (SEs ! 0) = ''/europe/uk/ral'' \<and>
   location (SEs ! 1) = ''/europe/uk/ral'' \<and>
   location (SEs ! 3) = ''/asia/jp/kek'' \<and>
   get_distance (SEs ! 0) (SEs ! 1) = Inr (- 3) \<and>
   get_distance (SEs ! 0) (SEs ! 3) = Inr (- 1)"
proof -
  have "get_distance a b = get_distance b a"
    by (simp add: get_distance_eq shared_slashes_def lcp_commute [of "location a"])
  moreover have "get_distance a a = Inr (- int (count_list (location a) CHR ''/''))"
    by (simp add: get_distance_eq shared_slashes_def lcp_self)
  moreover have "get_distance (SEs ! 0) (SEs ! 1) = Inr (- 3)"
    by (simp add: SEs_def get_distance_eq shared_slashes_def)
  moreover have "get_distance (SEs ! 0) (SEs ! 3) = Inr (- 1)"
    by (simp add: SEs_def get_distance_eq shared_slashes_def)
  ultimately show ?thesis
    by (simp add: SEs_def)
qed

subsection \<open>Reverse lookup\<close>

lemma str_contains_sublist: "str_contains sub s = sublist sub s"
  by (induction s) (auto simp: sublist_Cons_right)

lemma get_SE_by_path_loop_None:
  "get_SE_by_path_loop ses path = None \<longleftrightarrow> (\<forall>se\<in>set ses. \<not> sublist (host se) path)"
  by (induction ses) (auto simp: str_contains_sublist)

lemma get_SE_by_path_loop_Some:
  "get_SE_by_path_loop ses path = Some se \<Longrightarrow>
   \<exists>before after. ses = before @ se # after \<and> sublist (host se) path \<and>
     (\<forall>s\<in>set before. \<not> sublist (host s) path)"
proof (induction ses)
  case Nil
  then show ?case by simp
next
  case (Cons s rest)
  show ?case
  proof (cases "str_contains (host s) path")
    case True
    with Cons.prems have "s = se" by simp
    with True have "s # rest = [] @ se # rest \<and> sublist (host se) path \<and>
        (\<forall>s\<in>set []. \<not> sublist (host s) path)"
      by (simp add: str_contains_sublist)
    then show ?thesis by blast
  next
    case False
    with Cons.prems have "get_SE_by_path_loop rest path = Some se" by simp
    from Cons.IH [OF this] obtain before after where
      r: "rest = before @ se # after" "sublist (host se) path"
         "\<forall>s\<in>set before. \<not> sublist (host s) path"
      by blast
    with False have "s # rest = (s # before) @ se # after \<and> sublist (host se) path \<and>
        (\<forall>t\<in>set (s # before). \<not> sublist (host t) path)"
      by (simp add: str_contains_sublist)
    then show ?thesis by blast
  qed
qed

text \<open>
  Claim C7: the reverse lookup walks the registered elements in registration order and
  returns the first one whose host occurs in the locator as a contiguous substring; it
  returns \<open>None\<close> when no registered host occurs in the locator. The statement holds for
  the loop over any registry, and \<open>get_SE_by_path\<close> is that loop over \<open>SEs\<close>.
\<close>

theorem get_SE_by_path_first_match:
  "get_SE_by_path path = get_SE_by_path_loop SEs path \<and>
   (case get_SE_by_path_loop ses path of
      None \<Rightarrow> \<forall>se\<in>set ses. \<not> sublist (host se) path
    | Some se \<Rightarrow>
        \<exists>before after. ses = before @ se # after \<and> sublist (host se) path \<and>
          (\<forall>s\<in>set before. \<not> sublist (host s) path))"
proof (cases "get_SE_by_path_loop ses path")
  case None
  then have "\<forall>se\<in>set ses. \<not> sublist (host se) path"
    by (simp add: get_SE_by_path_loop_None)
  with None show ?thesis
    by (simp add: get_SE_by_path_def)
next
  case (Some se)
  from get_SE_by_path_loop_Some [OF Some] Some show ?thesis
    by (simp add: get_SE_by_path_def)
qed

text \<open>
  Witness for C7: a locator on the KEK host resolves to the fourth registered element,
  after the three elements before it were tried and did not match.
\<close>

theorem get_SE_by_path_first_match_witness:
  "get_SE_by_path ''srm://kek2-se01.cc.kek.jp/t2k.org/nd280/file'' = Some (SEs ! 3) \<and>
   (\<exists>before after. SEs = before @ (SEs ! 3) # after \<and>
      sublist (host (SEs ! 3)) ''srm://kek2-se01.cc.kek.jp/t2k.org/nd280/file'' \<and>
      (\<forall>s\<in>set before. \<not> sublist (host s) ''srm://kek2-se01.cc.kek.jp/t2k.org/nd280/file''))"
proof -
  have e: "get_SE_by_path_loop SEs ''srm://kek2-se01.cc.kek.jp/t2k.org/nd280/file''
             = Some (SEs ! 3)"
    by (simp add: SEs_def)
  from get_SE_by_path_first_match
         [of "''srm://kek2-se01.cc.kek.jp/t2k.org/nd280/file''" SEs] e
  show ?thesis by simp
qed

section \<open>Properties of cache.py\<close>



text \<open>
  Where the machine's sum differs from the exact one: a TTL so small against the creation
  time that rounding absorbs it leaves the entry expired from the moment it is created.
\<close>

lemma is_valid_absorbed:
  assumes "creation_time entry = Some t" "float_add rt t (entry_cache_time entry) = t"
    and "time rt w = t"
  shows "is_valid rt w entry = Inr False"
  using assms by (simp add: is_valid_def)





text \<open>
  Claim C8: a memoized operation never caches an error. When the underlying operation
  fails on an argument list, the cache object after the wrapped call is the cache object
  before it; and when the call reaches the operation (no valid entry answers for these
  arguments), the failure is what the wrapped call returns to its caller.
\<close>

theorem cached_function_error_not_cached:
  assumes "operation args (cr_world s) = (Inl e, w')"
  shows "cr_cache (snd (cached_function rt operation args s)) = cr_cache s \<and>
         (get_entry rt (cr_world s) (cr_cache s) args = Inr None \<longrightarrow>
            cached_function rt operation args s
              = (Inl e, s\<lparr> cr_world := w', cr_calls := Suc (cr_calls s) \<rparr>))"
  using assms by (auto simp: cached_function_def split: sum.splits option.splits)

text \<open>
  Witness for C8: the failing operation on an empty cache. The failure is returned, the
  operation was invoked once, and the cache is still empty.
\<close>

theorem cached_function_error_not_cached_witness:
  "cached_function demo_rt demo_failing_op ''lfn'' demo_run
     = (Inl (ErrorReturnCode 1 ''lcg-lr failed''), demo_run\<lparr> cr_world := 1, cr_calls := 1 \<rparr>) \<and>
   cr_cache (snd (cached_function demo_rt demo_failing_op ''lfn'' demo_run)) = Cache_init 60"
proof -
  have miss: "get_entry demo_rt (cr_world demo_run) (cr_cache demo_run) ''lfn'' = Inr None"
    by (simp add: get_entry_def Cache_hash_def demo_rt_def demo_run_def Cache_init_def)
  have failing: "demo_failing_op ''lfn'' (cr_world demo_run)
      = (Inl (ErrorReturnCode 1 ''lcg-lr failed''), 1)"
    by (simp add: demo_failing_op_def demo_run_def)
  from cached_function_error_not_cached [where rt = demo_rt and operation = demo_failing_op and args = "''lfn''" and s = demo_run, OF failing] miss show ?thesis
    by (simp add: demo_run_def)
qed

text \<open>
  Claim C10: a \<^verbatim>\<open>CacheEntry\<close> constructed with an explicit creation time does not store
  it. The attribute is assigned only when the argument is \<^verbatim>\<open>None\<close> (then it is the
  current time), so with an explicit creation time the entry has no such attribute and
  every validity check on it fails with \<^verbatim>\<open>AttributeError\<close>.
\<close>

theorem CacheEntry_explicit_creation_time:
  "creation_time (CacheEntry_init rt w v (Some t) ttl) = None \<and>
   is_valid rt w' (CacheEntry_init rt w v (Some t) ttl) = Inl AttributeError \<and>
   creation_time (CacheEntry_init rt w v None ttl) = Some (time rt w)"
  by (simp add: CacheEntry_init_def is_valid_def)

section \<open>Properties of backends.py\<close>

subsection \<open>Output shapes\<close>

lemma str_split_snoc_sep: "str_split sep (s @ [sep]) = str_split sep s @ [[]]"
  by (induction s) (auto split: list.splits simp: str_split_not_Nil)

lemma concat_str_split: "concat (map (\<lambda>l. l @ [sep]) (str_split sep s)) = s @ [sep]"
  by (induction s) (auto split: list.splits)

text \<open>What the split gives for a text that is not empty: lines, each with its terminator.\<close>

lemma from_text_lines:
  assumes "text \<noteq> []"
  shows "iterable_output_from_text text \<lparr> kw_iter = Some True, kw_ok_code = c \<rparr> =
           Inr (Iterable (Iter
             (map (\<lambda>line. line @ ''\<newline>'')
                (str_split CHR ''\<newline>''
                   (if last text = CHR ''\<newline>'' then butlast text else text))) None))"
proof (cases "last text = CHR ''\<newline>''")
  case True
  with assms have "text = butlast text @ ''\<newline>''"
    by (metis append_butlast_last_id)
  then have "str_split CHR ''\<newline>'' text = str_split CHR ''\<newline>'' (butlast text) @ [[]]"
    by (metis str_split_snoc_sep)
  with True assms show ?thesis
    by (simp add: iterable_output_from_text_def pop_iter_def)
next
  case False
  with assms show ?thesis
    by (simp add: iterable_output_from_text_def pop_iter_def)
qed

lemma text_round_trip_eq:
  "text_round_trip text =
     (if text = [] then Inl IndexError
      else if last text = CHR ''\<newline>'' then Inr (Text text)
      else Inr (Text (text @ ''\<newline>'')))"
proof (cases "text = []")
  case True
  then show ?thesis
    by (simp add: text_round_trip_def iterable_output_from_text_def pop_iter_def)
next
  case False
  show ?thesis
  proof (cases "last text = CHR ''\<newline>''")
    case True
    with False have "butlast text @ ''\<newline>'' = text"
      by (metis append_butlast_last_id)
    with True False show ?thesis
      by (simp add: text_round_trip_def from_text_lines iterable_output_from_iterable_def
          pop_iter_def concat_str_split)
  next
    case nl: False
    with False show ?thesis
      by (simp add: text_round_trip_def from_text_lines iterable_output_from_iterable_def
          pop_iter_def concat_str_split)
  qed
qed

text \<open>
  Claim C1, as stated (for every text \<open>T\<close>, joining the split of \<open>T\<close> gives \<open>T\<close>), fails:
  a last line without terminator comes back with one.
\<close>

theorem text_round_trip_adds_terminator:
  "text_round_trip ''replica'' = Inr (Text ''replica\<newline>'') \<and>
   text_round_trip ''replica'' \<noteq> Inr (Text ''replica'')"
  by (simp add: text_round_trip_eq)

text \<open>
  Claim C1, amended: for a text \<open>T\<close> that is not empty, the split yields lines that each
  end with the line terminator (none of them is empty, so there is no trailing empty
  element), and joining them gives \<open>T\<close> exactly when \<open>T\<close> ends with a line terminator, and
  \<open>T\<close> followed by one line terminator otherwise.
\<close>

theorem text_round_trip_terminated:
  assumes "text \<noteq> []"
  shows "\<exists>lines.
           iterable_output_from_text text \<lparr> kw_iter = Some True, kw_ok_code = None \<rparr>
             = Inr (Iterable (Iter lines None)) \<and>
           (\<forall>line\<in>set lines. line \<noteq> [] \<and> last line = CHR ''\<newline>'') \<and>
           text_round_trip text =
             Inr (Text (if last text = CHR ''\<newline>'' then text else text @ ''\<newline>''))"
  using assms by (auto simp: from_text_lines text_round_trip_eq)

text \<open>Witness for C1: two terminated lines.\<close>

theorem text_round_trip_terminated_witness:
  "\<exists>lines.
     iterable_output_from_text ''a.txt\<newline>b.log\<newline>'' \<lparr> kw_iter = Some True, kw_ok_code = None \<rparr>
       = Inr (Iterable (Iter lines None)) \<and>
     length lines = 2 \<and>
     text_round_trip ''a.txt\<newline>b.log\<newline>'' = Inr (Text ''a.txt\<newline>b.log\<newline>'')"
proof -
  have ne: "''a.txt\<newline>b.log\<newline>'' \<noteq> []" by simp
  from text_round_trip_terminated [OF ne] obtain lines where
    l: "iterable_output_from_text ''a.txt\<newline>b.log\<newline>'' \<lparr> kw_iter = Some True, kw_ok_code = None \<rparr>
          = Inr (Iterable (Iter lines None))"
       "text_round_trip ''a.txt\<newline>b.log\<newline>'' = Inr (Text ''a.txt\<newline>b.log\<newline>'')"
    by auto
  from l(1) have "length lines = 2"
    by (simp add: iterable_output_from_text_def pop_iter_def Let_def) auto
  with l show ?thesis by blast
qed

subsection \<open>What leaves the record of raw calls alone\<close>

lemma priv_ls_calls: "replicate_calls (snd (priv_ls self p l d kw s)) = replicate_calls s"
  by (simp add: priv_ls_def Let_def split: prod.splits)

lemma ls_calls: "replicate_calls (snd (ls self p l d kw s)) = replicate_calls s"
  by (simp add: ls_def priv_ls_calls)

lemma priv_is_dir_calls:
  "replicate_calls (snd (priv_is_dir self p s)) = replicate_calls s"
proof -
  obtain r s' where e: "priv_ls self p True True no_kwargs s = (r, s')"
    by (cases "priv_ls self p True True no_kwargs s")
  with priv_ls_calls [of self p True True no_kwargs s]
  have "replicate_calls s' = replicate_calls s" by simp
  with e show ?thesis
    by (simp add: priv_is_dir_def split: sum.splits list.splits)
qed

lemma find_source_calls:
  "replicate_calls (snd (find_source env dst p source tape s)) = replicate_calls s"
  by (auto simp: find_source_def and_then_def on_world_def raise_def
      split: option.splits sum.splits prod.splits)

subsection \<open>A replica already at the destination\<close>

lemma already_present_not_Nil: "already_present remotepath dst \<noteq> []"
  by (simp add: already_present_def)

lemma last_already_present: "last (already_present remotepath dst) = CHR ''\<newline>''"
  by (simp add: already_present_def)

lemma from_text_already_present:
  "\<exists>out. iterable_output_from_text (already_present remotepath dst) kw = Inr out \<and>
     py_str out = already_present remotepath dst \<and>
     out = (if pop_iter kw
            then Iterable (Iter (map (\<lambda>line. line @ ''\<newline>'')
                   (butlast (str_split CHR ''\<newline>'' (already_present remotepath dst)))) None)
            else Text (already_present remotepath dst))"
proof -
  have "already_present remotepath dst = butlast (already_present remotepath dst) @ ''\<newline>''"
    using already_present_not_Nil last_already_present by (metis append_butlast_last_id)
  then obtain t where t: "already_present remotepath dst = t @ ''\<newline>''" ..
  show ?thesis
    by (simp add: iterable_output_from_text_def py_str_def t str_split_snoc_sep
        concat_str_split)
qed

lemma replicate_leaf_present:
  assumes "get_SE env destination (world s1) = (Inr (Some dst), w2)"
      and "has_replica env dst remotepath w2 = (Inr True, w3)"
  shows "replicate_leaf self env remotepath destination source tape kw s1 =
           (iterable_output_from_text (already_present remotepath dst) kw, s1\<lparr> world := w3 \<rparr>)"
  using assms by (simp add: replicate_leaf_def and_then_def on_world_def)

text \<open>
  Claim C3: when the destination storage element already holds a replica of the logical
  path, \<^verbatim>\<open>replicate\<close> returns successfully with the message that the replica is already
  present, and the raw replicate primitive is not invoked: the record of its calls is what
  it was before. The call reaches the destination check when no recursion is asked for
  (\<open>s1 = s\<close>), or when recursion is asked for, the pattern compiles, and the path is
  reported not to be a directory (the directory query leaves the state \<open>s1\<close>). The
  destination is looked up in \<open>s1\<close> and the replica query follows it. The result is the
  message as text, or as its lines when \<^verbatim>\<open>_iter=True\<close>.
\<close>

theorem replicate_already_present:
  assumes leaf: "(recursive = RecBool False \<and> s1 = s) \<or>
        ((recursive = RecBool True \<or>
          (\<exists>pattern. recursive = RecStr pattern \<and> re_valid env pattern)) \<and>
         priv_is_dir self (full_path self remotepath) s = (Inr False, s1))"
      and dst: "get_SE env destination (world s1) = (Inr (Some dst), w2)"
      and present: "has_replica env dst remotepath w2 = (Inr True, w3)"
  shows "\<exists>out. replicate_grid self env remotepath destination source tape recursive kw s
             = (Inr out, s1\<lparr> world := w3 \<rparr>) \<and>
           py_str out = already_present remotepath dst \<and>
           out = (if pop_iter kw
                  then Iterable (Iter (map (\<lambda>line. line @ ''\<newline>'')
                         (butlast (str_split CHR ''\<newline>'' (already_present remotepath dst))))
                         None)
                  else Text (already_present remotepath dst)) \<and>
           replicate_calls (s1\<lparr> world := w3 \<rparr>) = replicate_calls s"
proof -
  from from_text_already_present [of remotepath dst kw]
  obtain out where out:
    "iterable_output_from_text (already_present remotepath dst) kw = Inr out"
    "py_str out = already_present remotepath dst"
    "out = (if pop_iter kw
            then Iterable (Iter (map (\<lambda>line. line @ ''\<newline>'')
                   (butlast (str_split CHR ''\<newline>'' (already_present remotepath dst)))) None)
            else Text (already_present remotepath dst))"
    by blast
  have run: "replicate_grid self env remotepath destination source tape recursive kw s =
      replicate_leaf self env remotepath destination source tape kw s1"
    using leaf by (auto simp: replicate_grid.simps [of self env remotepath])
  have calls: "replicate_calls s1 = replicate_calls s"
    using leaf priv_is_dir_calls [of self "full_path self remotepath" s] by auto
  from run replicate_leaf_present [OF dst present] out calls show ?thesis
    by simp
qed

text \<open>
  Witness for C3: in the example grid the tape element at RAL holds \<^verbatim>\<open>/d/a.txt\<close>;
  replicating the file to it returns the message and records no raw call.
\<close>

theorem replicate_already_present_witness:
  "\<exists>out. replicate_grid demo_backend demo_env ''/d/a.txt'' ''RAL-LCG22-tape'' None False
            (RecBool False) no_kwargs demo_state = (Inr out, demo_state) \<and>
     py_str out =
       ''/d/a.txt\<newline>Replica already present at destination storage element RAL-LCG22-tape.\<newline>'' \<and>
     replicate_calls demo_state = []"
proof -
  have leaf: "(RecBool False = RecBool False \<and> demo_state = demo_state) \<or>
        ((RecBool False = RecBool True \<or>
          (\<exists>pattern. RecBool False = RecStr pattern \<and> re_valid demo_env pattern)) \<and>
         priv_is_dir demo_backend (full_path demo_backend ''/d/a.txt'') demo_state
           = (Inr False, demo_state))"
    by simp
  have dst: "get_SE demo_env ''RAL-LCG22-tape'' (world demo_state) = (Inr (Some (SEs ! 0)), ())"
    by (simp add: demo_env_def SEs_def)
  have present: "has_replica demo_env (SEs ! 0) ''/d/a.txt'' () = (Inr True, ())"
    by (simp add: demo_env_def SEs_def)
  from replicate_already_present
         [where self = demo_backend and source = None and tape = False and kw = no_kwargs,
          OF leaf dst present]
  show ?thesis
    by (simp add: already_present_def SEs_def demo_state_def)
qed

subsection \<open>Recursive replication\<close>

text \<open>
  Under the options the recursion passes to a child (\<^verbatim>\<open>_iter=True\<close> and every exit status
  accepted), the raw primitive does not raise, whatever the exit status of the command: it
  returns the command's lines and records the call.
\<close>

lemma priv_replicate_all_codes:
  assumes codes: "snd (fst (replicate_cmd self
             [''-v'', ''--checksum'', ''-d'', dp, sp] (world s))) \<in> set all_exit_codes"
      and kw: "kw_ok_code kw = Some all_exit_codes" "kw_iter kw = Some True"
  shows "\<exists>t s'. priv_replicate self sp dp kw s =
             (Inr (Iterable (Iter (ignore_identical_loop None (t_output t)) None)), s') \<and>
           replicate_calls s' = replicate_calls s @ [t] \<and>
           t_source t = sp \<and> t_destination t = dp"
proof -
  obtain lines code w' where run:
    "replicate_cmd self [''-v'', ''--checksum'', ''-d'', dp, sp] (world s) = ((lines, code), w')"
    by (metis prod.exhaust)
  with codes have "code \<in> set all_exit_codes" by simp
  with kw have "sh_error (kw\<lparr> kw_iter := Some True \<rparr>) code lines = None"
    by (simp add: sh_error_def)
  with run kw show ?thesis
    by (simp add: priv_replicate_def sh_call_def pop_iter_def Let_def py_iter_def
        ignore_identical_lines_def iterable_output_from_iterable_def)
qed

text \<open>A child that is a file, is not yet at the destination and has a source: its call.\<close>

lemma child_transfer:
  assumes isfile: "fst (priv_is_dir self (full_path self p) s) = Inr False"
      and dest: "\<forall>w. fst (get_SE env destination w) = Inr (Some dst)"
      and absent: "\<forall>w. fst (has_replica env dst p w) = Inr False"
      and src: "\<forall>s'. fst (find_source env dst p source tape s') = Inr src"
      and rep: "\<forall>w. fst (get_replica env src p w) = Inr sp"
      and codes: "\<forall>args w. snd (fst (replicate_cmd self args w)) \<in> set all_exit_codes"
      and kw: "kw_ok_code kw = Some all_exit_codes" "kw_iter kw = Some True"
  shows "\<exists>t s'. replicate_grid self env p destination source tape (RecBool True) kw s =
             (Inr (Iterable (Iter (ignore_identical_loop None (t_output t)) None)), s') \<and>
           replicate_calls s' = replicate_calls s @ [t] \<and>
           (t_source t, t_destination t) = (sp, get_storage_path dst p)"
proof -
  obtain s1 where s1: "priv_is_dir self (full_path self p) s = (Inr False, s1)"
    using isfile by (cases "priv_is_dir self (full_path self p) s") auto
  with priv_is_dir_calls [of self "full_path self p" s]
  have c1: "replicate_calls s1 = replicate_calls s" by simp
  obtain w2 where w2: "get_SE env destination (world s1) = (Inr (Some dst), w2)"
    using dest [rule_format, of "world s1"] by (cases "get_SE env destination (world s1)") auto
  obtain w3 where w3: "has_replica env dst p w2 = (Inr False, w3)"
    using absent [rule_format, of w2] by (cases "has_replica env dst p w2") auto
  obtain s4 where s4: "find_source env dst p source tape (s1\<lparr> world := w3 \<rparr>) = (Inr src, s4)"
    using src [rule_format, of "s1\<lparr> world := w3 \<rparr>"]
    by (cases "find_source env dst p source tape (s1\<lparr> world := w3 \<rparr>)") auto
  with find_source_calls [of env dst p source tape "s1\<lparr> world := w3 \<rparr>"]
  have c4: "replicate_calls s4 = replicate_calls s1" by simp
  obtain w5 where w5: "get_replica env src p (world s4) = (Inr sp, w5)"
    using rep [rule_format, of "world s4"] by (cases "get_replica env src p (world s4)") auto
  have leaf: "replicate_leaf self env p destination source tape kw s1 =
      priv_replicate self sp (get_storage_path dst p) kw (s4\<lparr> world := w5 \<rparr>)"
    using w2 w3 s4 w5 by (simp add: replicate_leaf_def and_then_def on_world_def)
  have run: "replicate_grid self env p destination source tape (RecBool True) kw s =
      replicate_leaf self env p destination source tape kw s1"
    using s1 by (simp add: replicate_grid.simps [of self env p])
  from priv_replicate_all_codes [of self "get_storage_path dst p" sp "s4\<lparr> world := w5 \<rparr>" kw]
    codes kw
  obtain t s' where
    "priv_replicate self sp (get_storage_path dst p) kw (s4\<lparr> world := w5 \<rparr>) =
       (Inr (Iterable (Iter (ignore_identical_loop None (t_output t)) None)), s')"
    "replicate_calls s' = replicate_calls (s4\<lparr> world := w5 \<rparr>) @ [t]"
    "t_source t = sp" "t_destination t = get_storage_path dst p"
    by blast
  with run leaf c1 c4 show ?thesis by simp
qed

text \<open>A chain whose calls all return and whose iterables all end normally visits every path.\<close>

lemma chain_all_processed:
  assumes "\<forall>p\<in>set paths. \<forall>s'. \<exists>t s''.
             outputs p s' = (Inr (Iterable (Iter (g t) None)), s'') \<and>
             replicate_calls s'' = replicate_calls s' @ [t] \<and> h t = k p"
  shows "\<exists>trace s3.
           chain_from_iterable outputs paths s = (Iter (concat (map g trace)) None, s3) \<and>
           replicate_calls s3 = replicate_calls s @ trace \<and> map h trace = map k paths"
  using assms
proof (induction paths arbitrary: s)
  case Nil
  then show ?case by simp
next
  case (Cons p paths)
  from Cons.prems obtain t s1 where
    t: "outputs p s = (Inr (Iterable (Iter (g t) None)), s1)"
       "replicate_calls s1 = replicate_calls s @ [t]" "h t = k p"
    by (meson list.set_intros(1))
  from Cons.prems have "\<forall>p\<in>set paths. \<forall>s'. \<exists>t s''.
             outputs p s' = (Inr (Iterable (Iter (g t) None)), s'') \<and>
             replicate_calls s'' = replicate_calls s' @ [t] \<and> h t = k p"
    by simp
  from Cons.IH [OF this, of s1] obtain trace s3 where
    r: "chain_from_iterable outputs paths s1 = (Iter (concat (map g trace)) None, s3)"
       "replicate_calls s3 = replicate_calls s1 @ trace" "map h trace = map k paths"
    by blast
  from t r have
    "chain_from_iterable outputs (p # paths) s = (Iter (concat (map g (t # trace))) None, s3) \<and>
     replicate_calls s3 = replicate_calls s @ (t # trace) \<and>
     map h (t # trace) = map k (p # paths)"
    by (simp add: py_iter_def)
  then show ?case by blast
qed

text \<open>
  The children of a recursive call are all visited when the caller gave no \<^verbatim>\<open>_ok_code\<close>,
  every child is a file that is not yet at the destination, and a source and its replica
  are found for it: the exit status of the transfer command plays no part.
\<close>

lemma recursive_isolation:
  assumes no_ok: "kw_ok_code kw = None"
      and rec: "(recursive = RecBool True \<and> regex = None) \<or>
                (\<exists>pattern. recursive = RecStr pattern \<and> re_valid env pattern \<and>
                   regex = Some pattern)"
      and dir: "priv_is_dir self (full_path self remotepath) s = (Inr True, s1)"
      and listing: "ls self remotepath False False \<lparr> kw_iter = Some True, kw_ok_code = None \<rparr> s1
                      = (Inr listing, s2)"
      and listed: "raised (py_iter listing) = None"
      and newpaths: "newpaths =
             map (posixpath_join remotepath)
               (filter (\<lambda>element. case regex of None \<Rightarrow> True
                                  | Some pattern \<Rightarrow> re_search env pattern element)
                  (map unicode_strip (yielded (py_iter listing))))"
      and files: "\<forall>p\<in>set newpaths. \<forall>s'. fst (priv_is_dir self (full_path self p) s') = Inr False"
      and dest: "\<forall>w. fst (get_SE env destination w) = Inr (Some dst)"
      and absent: "\<forall>p\<in>set newpaths. \<forall>w. fst (has_replica env dst p w) = Inr False"
      and src: "\<forall>p\<in>set newpaths. \<forall>s'.
                  fst (find_source env dst p source tape s') = Inr (src_of p)"
      and rep: "\<forall>p\<in>set newpaths. \<forall>w. fst (get_replica env (src_of p) p w) = Inr (replica_of p)"
      and codes: "\<forall>args w. snd (fst (replicate_cmd self args w)) \<in> set all_exit_codes"
  shows "\<exists>trace s3.
           replicate_grid self env remotepath destination source tape recursive kw s =
             (Inr (if pop_iter kw
                   then Iterable (Iter (concat (map (\<lambda>t. ignore_identical_loop None (t_output t))
                                                  trace)) None)
                   else Text (concat (concat (map (\<lambda>t. ignore_identical_loop None (t_output t))
                                                 trace)))), s3) \<and>
           replicate_calls s3 = replicate_calls s @ trace \<and>
           map (\<lambda>t. (t_source t, t_destination t)) trace =
             map (\<lambda>p. (replica_of p, get_storage_path dst p)) newpaths"
proof -
  define kw_child where
    "kw_child = kw\<lparr> kw_iter := Some True, kw_ok_code := Some all_exit_codes \<rparr>"
  define outputs where
    "outputs = (\<lambda>path s'.
       if kw_ok_code (kw\<lparr> kw_iter := None \<rparr>) = None
       then replicate_grid self env path destination source tape (RecBool True)
              (kw\<lparr> kw_iter := None, kw_iter := Some True, kw_ok_code := Some all_exit_codes \<rparr>) s'
       else (Inl TypeError, s'))"
  have out_eq: "outputs p s' =
      replicate_grid self env p destination source tape (RecBool True) kw_child s'" for p s'
    using no_ok by (simp add: outputs_def kw_child_def)
  have kwc: "kw_ok_code kw_child = Some all_exit_codes" "kw_iter kw_child = Some True"
    by (simp_all add: kw_child_def)
  have each: "\<forall>p\<in>set newpaths. \<forall>s'. \<exists>t s''.
      outputs p s' = (Inr (Iterable (Iter (ignore_identical_loop None (t_output t)) None)), s'') \<and>
      replicate_calls s'' = replicate_calls s' @ [t] \<and>
      (t_source t, t_destination t) = (replica_of p, get_storage_path dst p)"
  proof (intro ballI allI)
    fix p s'
    assume p: "p \<in> set newpaths"
    from child_transfer [of self p s' env destination dst source tape "src_of p" "replica_of p" kw_child]
      files [rule_format, OF p] dest absent [rule_format, OF p] src [rule_format, OF p]
      rep [rule_format, OF p] codes kwc
    show "\<exists>t s''.
      outputs p s' = (Inr (Iterable (Iter (ignore_identical_loop None (t_output t)) None)), s'') \<and>
      replicate_calls s'' = replicate_calls s' @ [t] \<and>
      (t_source t, t_destination t) = (replica_of p, get_storage_path dst p)"
      by (simp add: out_eq)
  qed
  from chain_all_processed [OF each, of s2] obtain trace s3 where
    ch: "chain_from_iterable outputs newpaths s2 =
           (Iter (concat (map (\<lambda>t. ignore_identical_loop None (t_output t)) trace)) None, s3)"
        "replicate_calls s3 = replicate_calls s2 @ trace"
        "map (\<lambda>t. (t_source t, t_destination t)) trace =
           map (\<lambda>p. (replica_of p, get_storage_path dst p)) newpaths"
    by blast
  have c1: "replicate_calls s1 = replicate_calls s"
    using dir priv_is_dir_calls [of self "full_path self remotepath" s] by simp
  have c2: "replicate_calls s2 = replicate_calls s1"
    using listing
      ls_calls [of self remotepath False False "\<lparr> kw_iter = Some True, kw_ok_code = None \<rparr>" s1]
    by simp
  have run: "replicate_grid self env remotepath destination source tape recursive kw s =
      (iterable_output_from_iterable
         (Iter (concat (map (\<lambda>t. ignore_identical_loop None (t_output t)) trace)) None)
         \<lparr> kw_iter = Some (pop_iter kw), kw_ok_code = None \<rparr>, s3)"
    using rec dir listing listed ch(1)
    by (auto simp: replicate_grid.simps [of self env remotepath] Let_def newpaths outputs_def)
  from run ch(2,3) c1 c2 show ?thesis
    by (auto simp: iterable_output_from_iterable_def pop_iter_def)
qed

text \<open>
  With an \<^verbatim>\<open>_ok_code\<close> among the keyword arguments, as in every call the recursion itself
  makes, the call of the first child is refused: the keyword would be given twice.
\<close>

lemma recursive_own_ok_code:
  assumes given: "kw_ok_code kw \<noteq> None"
      and rec: "(recursive = RecBool True \<and> regex = None) \<or>
                (\<exists>pattern. recursive = RecStr pattern \<and> re_valid env pattern \<and>
                   regex = Some pattern)"
      and dir: "priv_is_dir self (full_path self remotepath) s = (Inr True, s1)"
      and listing: "ls self remotepath False False \<lparr> kw_iter = Some True, kw_ok_code = None \<rparr> s1
                      = (Inr listing, s2)"
      and listed: "raised (py_iter listing) = None"
      and newpaths: "newpaths =
             map (posixpath_join remotepath)
               (filter (\<lambda>element. case regex of None \<Rightarrow> True
                                  | Some pattern \<Rightarrow> re_search env pattern element)
                  (map unicode_strip (yielded (py_iter listing))))"
      and children: "newpaths \<noteq> []"
  shows "replicate_grid self env remotepath destination source tape recursive kw s =
           (if pop_iter kw then Inr (Iterable (Iter [] (Some TypeError))) else Inl TypeError, s2)"
proof -
  from children obtain p ps where ps: "newpaths = p # ps" by (cases newpaths) auto
  define outputs where
    "outputs = (\<lambda>path s'.
       if kw_ok_code (kw\<lparr> kw_iter := None \<rparr>) = None
       then replicate_grid self env path destination source tape (RecBool True)
              (kw\<lparr> kw_iter := None, kw_iter := Some True, kw_ok_code := Some all_exit_codes \<rparr>) s'
       else (Inl TypeError, s'))"
  have "outputs p s2 = (Inl TypeError, s2)"
    using given by (auto simp: outputs_def)
  then have ch: "chain_from_iterable outputs newpaths s2 = (Iter [] (Some TypeError), s2)"
    by (simp add: ps)
  have "replicate_grid self env remotepath destination source tape recursive kw s =
      (iterable_output_from_iterable (Iter [] (Some TypeError))
         \<lparr> kw_iter = Some (pop_iter kw), kw_ok_code = None \<rparr>, s2)"
    using rec dir listing listed ch
    by (auto simp: replicate_grid.simps [of self env remotepath] Let_def newpaths outputs_def)
  then show ?thesis
    by (simp add: iterable_output_from_iterable_def pop_iter_def)
qed

text \<open>
  Claim C9 (during recursive replication each child's failure is by default isolated:
  recorded in the aggregated output and not propagated, so the remaining children are still
  processed). The code passes every exit status as acceptable to each child, under the
  comment \<^verbatim>\<open># Ignore errors when running recursively\<close>, and this isolates a transfer
  command that fails: in the example grid \<^verbatim>\<open>lcg-rep\<close> fails on \<^verbatim>\<open>a.txt\<close> and \<^verbatim>\<open>b.log\<close> is
  replicated after it. But an error that \<^verbatim>\<open>replicate\<close> raises itself for a child is not
  caught. In the example grid without a source for \<^verbatim>\<open>/d/a.txt\<close>, the recursive replication
  of \<^verbatim>\<open>/d\<close> ends with the first child's error: it reaches the caller, nothing is recorded
  in the output, and the second child \<^verbatim>\<open>/d/b.log\<close>, which on its own is replicated, is
  never processed (no raw call is made). Likewise a child that is a directory with
  children ends the whole call with \<^verbatim>\<open>TypeError\<close>, since the recursion passes \<^verbatim>\<open>_ok_code\<close>
  a second time, although the docstring says sub-directories are replicated.
\<close>

theorem replicate_recursive_aborts_on_child_error:
  "replicate_grid demo_backend demo_env ''/d'' ''JP-KEK-CRC-02-disk'' None False
     (RecBool True) no_kwargs demo_state
   = (Inr (Text ''transfer failed\<newline>copying\<newline>done\<newline>''),
      \<lparr> world = (), replicate_calls =
         [\<lparr> t_source = ''srm://ral/d/a.txt'', t_destination = ''/d/a.txt'', t_exit_code = 1,
             t_output = [''transfer failed\<newline>''] \<rparr>,
          \<lparr> t_source = ''srm://ral/d/b.log'', t_destination = ''/d/b.log'', t_exit_code = 0,
             t_output = [''copying\<newline>'', ''copying\<newline>'', ''done\<newline>''] \<rparr>] \<rparr>) \<and>
   replicate_grid demo_backend demo_env_no_source ''/d'' ''JP-KEK-CRC-02-disk'' None False
     (RecBool True) no_kwargs demo_state
   = (Inl (ErrorReturnCode 1
        ''Could not find valid storage element with replica of /d/a.txt.\<newline>''), demo_state) \<and>
   replicate_calls demo_state = [] \<and>
   fst (replicate_grid demo_backend demo_env_no_source ''/d/b.log'' ''JP-KEK-CRC-02-disk'' None
          False (RecBool False) no_kwargs demo_state)
   = Inr (Text ''copying\<newline>done\<newline>'') \<and>
   replicate_grid demo_backend_nested demo_env ''/top'' ''JP-KEK-CRC-02-disk'' None False
     (RecBool True) no_kwargs demo_state
   = (Inl TypeError, demo_state)"
  by code_simp

end
